theory Spec2Isabelle
  imports Complex_Main
begin

section \<open>Time\<close>

text \<open>
  A naive \<open>datetime\<close> is modelled as the number of seconds since midnight of a fixed
  day 0. Every timestamp the program builds has \<open>microsecond = 0\<close>: \<open>now\<close> is always
  \<open>datetime.now().replace(microsecond=0)\<close> and the seat start is stored with
  \<open>second=0, microsecond=0\<close> or built by \<open>datetime.combine\<close> from a minute-resolution
  time. Naive datetime arithmetic has no time zone and no leap second, so the calendar day
  is \<open>dt div 86400\<close> and the clock time is \<open>dt mod 86400\<close>. The year range 1..9999 of
  \<open>datetime\<close> is not modelled. A \<open>timedelta\<close> and the float returned by
  \<open>total_seconds()\<close> are integers of seconds.
\<close>

type_synonym datetime = int

definition dtime :: "int \<Rightarrow> int \<Rightarrow> int" where
  \<comment> \<open>\<open>datetime.time(hh, mm)\<close> as seconds after midnight\<close>
  "dtime hh mm = hh * 3600 + mm * 60"

definition time_of :: "datetime \<Rightarrow> int" where
  \<comment> \<open>\<open>dt.time()\<close>\<close>
  "time_of dt = dt mod 86400"

definition date_of :: "datetime \<Rightarrow> int" where
  \<comment> \<open>\<open>dt.date()\<close>, as the number of the day\<close>
  "date_of dt = dt div 86400"

definition timedelta_minutes :: "int \<Rightarrow> int" where
  \<comment> \<open>\<open>timedelta(minutes=m)\<close>\<close>
  "timedelta_minutes m = m * 60"

section \<open>Seat rules of the reading room\<close>

definition SEAT_CLOSE_HOUR :: int where "SEAT_CLOSE_HOUR = 23"
definition SEAT_OPEN_HOUR :: int where "SEAT_OPEN_HOUR = 6"
definition SEAT_BASE_MIN :: int where "SEAT_BASE_MIN = 180"
definition SEAT_ALERT_WINDOW_SEC :: int where "SEAT_ALERT_WINDOW_SEC = 59 * 60"

definition dt_at :: "datetime \<Rightarrow> int \<Rightarrow> int \<Rightarrow> int \<Rightarrow> datetime" where
  \<comment> \<open>\<open>dt.replace(hour=hh, minute=mm, second=ss, microsecond=0)\<close>\<close>
  "dt_at dt hh mm ss = date_of dt * 86400 + hh * 3600 + mm * 60 + ss"

definition is_seat_reset_window :: "datetime \<Rightarrow> bool" where
  "is_seat_reset_window now =
     (time_of now \<ge> dtime SEAT_CLOSE_HOUR 0 \<or> time_of now < dtime SEAT_OPEN_HOUR 0)"

definition next_seat_open_dt :: "datetime \<Rightarrow> datetime" where
  "next_seat_open_dt now =
     (let today_open = dt_at now SEAT_OPEN_HOUR 0 0
      in if time_of now < dtime SEAT_OPEN_HOUR 0 then today_open
         else today_open + 86400)"

definition seat_close_dt_for :: "datetime \<Rightarrow> datetime" where
  "seat_close_dt_for start_dt = dt_at start_dt SEAT_CLOSE_HOUR 0 0"

definition get_seat_expiry_dt :: "datetime \<Rightarrow> int \<Rightarrow> datetime" where
  "get_seat_expiry_dt seat_start_dt extension_min =
     (let base_expiry = seat_start_dt + timedelta_minutes (SEAT_BASE_MIN + extension_min);
          close_dt = seat_close_dt_for seat_start_dt
      in min base_expiry close_dt)"

definition compute_seat_left_seconds :: "datetime \<Rightarrow> datetime option \<Rightarrow> int \<Rightarrow> int option" where
  "compute_seat_left_seconds now seat_start_dt extension_min =
     (case seat_start_dt of
        None \<Rightarrow> None
      | Some seat_start \<Rightarrow>
          if is_seat_reset_window now then None
          else if now < seat_start then None
          else Some (get_seat_expiry_dt seat_start extension_min - now))"

section \<open>Session state and the store\<close>

text \<open>
  \<open>st.session_state\<close> is a dictionary with a fixed set of keys (the \<open>defaults\<close> and
  \<open>settings\<close>); it is a record here, with \<open>None\<close> as \<open>option\<close>. A \<open>datetime\<close> object is
  always truthy, so \<open>if x:\<close> and \<open>if not x:\<close> on an optional datetime test for \<open>None\<close>.
  The progress percentage is a float in the source; it is an exact rational here, and no
  statement below depends on its rounding.
\<close>

datatype phase = IDLE | FOCUS | REST

record settings =
  use_seat :: bool
  seat_start_dt :: "datetime option"
  focus :: int
  rest :: int

record session_state =
  running :: bool
  paused :: bool
  phase :: phase
  phase_start_dt :: "datetime option"
  phase_end_dt :: "datetime option"
  pause_started_at :: "datetime option"
  pause_snapshot_prog :: "rat option"
  pause_snapshot_rem_sec :: "int option"
  seat_extension_min :: int
  show_extension_dialog :: bool
  extension_seat_left_sec :: "int option"
  seat_extension_context :: string
  seat_alert_shown_in_rest :: bool
  show_start_setup :: bool
  pending_start :: bool
  pending_resume :: bool
  pending_focus :: int
  pending_rest :: int
  show_pause_dialog :: bool
  show_stop_dialog :: bool
  prev_seat_toggle :: bool
  show_seat_settings :: bool
  seat_autopopup_done :: bool
  block_next_focus_until_seat_extended :: bool
  need_main_rerun :: bool
  settings :: settings

text \<open>
  The two tables the timer writes. A row keeps the datetime itself where the source stores
  its \<open>strftime\<close> text, and the kind of an interruption where the source prefixes the
  reason with a fixed label for pause or stop. Rows are in insertion order.
\<close>

record study_session =
  start_time :: datetime
  end_time :: datetime
  focus_minutes :: int

datatype interruption_kind = PauseKind | StopKind

record interruption =
  timestamp :: datetime
  kind :: interruption_kind
  reason :: string
  duration_lost :: int
  phase_at :: phase

record database =
  study_sessions :: "study_session list"
  interruptions :: "interruption list"

definition reset_db :: "database \<Rightarrow> database" where
  \<comment> \<open>drops the tables; \<open>init_db\<close> recreates them empty on the next run\<close>
  "reset_db conn = \<lparr>study_sessions = [], interruptions = []\<rparr>"

section \<open>Logging of study sessions\<close>

definition minutes_between :: "datetime \<Rightarrow> datetime \<Rightarrow> int" where
  "minutes_between t0 t1 = (let sec = max 0 (t1 - t0) in sec div 60)"

definition log_focus_segment_if_any :: "database \<Rightarrow> datetime option \<Rightarrow> datetime \<Rightarrow> database \<times> int" where
  "log_focus_segment_if_any conn seg_start seg_end =
     (case seg_start of
        None \<Rightarrow> (conn, 0)
      | Some t0 \<Rightarrow>
          let mins = minutes_between t0 seg_end
          in if mins \<le> 0 then (conn, 0)
             else (conn\<lparr>study_sessions := study_sessions conn @
                      [\<lparr>start_time = t0, end_time = seg_end, focus_minutes = mins\<rparr>]\<rparr>, mins))"

section \<open>What the timer draws\<close>

text \<open>
  \<open>get_filled_pie_html\<close> renders its four arguments as HTML; the model keeps the
  arguments. The time text is \<open>mm:ss\<close> (two numbers here, the literal \<open>00:00\<close> being
  \<open>Clock 0 0\<close>) or the word PAUSE; the status captions are an enumeration.
\<close>

datatype time_text = Clock int int | PAUSE

datatype status_text =
  Waiting | RestBlocked | FocusPaused | RestPaused | PausedNoSnapshot | Focusing | Resting

datatype pie = Pie rat string time_text status_text

definition get_filled_pie_html :: "rat \<Rightarrow> string \<Rightarrow> time_text \<Rightarrow> status_text \<Rightarrow> pie" where
  "get_filled_pie_html percentage color time_txt status =
     (let pct = max 0 (min 100 percentage) in Pie pct color time_txt status)"

definition clock_text :: "int \<Rightarrow> time_text" where
  \<comment> \<open>\<open>f"{int(rem_sec//60):02d}:{int(rem_sec%60):02d}"\<close>\<close>
  "clock_text rem_sec = Clock (rem_sec div 60) (rem_sec mod 60)"

section \<open>Timer operations\<close>

definition clear_dialog_flags :: "session_state \<Rightarrow> session_state" where
  "clear_dialog_flags s =
     s\<lparr>show_start_setup := False, show_extension_dialog := False, show_pause_dialog := False,
       show_stop_dialog := False, show_seat_settings := False\<rparr>"

definition request_extension_popup :: "string \<Rightarrow> int \<Rightarrow> session_state \<Rightarrow> session_state" where
  "request_extension_popup context seat_left_sec s =
     (let s1 = s\<lparr>seat_extension_context := context,
                 extension_seat_left_sec := Some (max 0 seat_left_sec)\<rparr>;
          s2 = clear_dialog_flags s1
      in s2\<lparr>show_extension_dialog := True, need_main_rerun := True\<rparr>)"

definition start_timer_session :: "datetime \<Rightarrow> int \<Rightarrow> int \<Rightarrow> session_state \<Rightarrow> session_state" where
  "start_timer_session now focus_min rest_min s =
     s\<lparr>settings := (settings s)\<lparr>focus := focus_min, rest := rest_min\<rparr>,
       running := True, paused := False, pause_started_at := None,
       pause_snapshot_prog := None, pause_snapshot_rem_sec := None,
       phase := FOCUS, phase_start_dt := Some now,
       phase_end_dt := Some (now + timedelta_minutes focus_min),
       seat_alert_shown_in_rest := False, seat_extension_context := ''break'',
       seat_extension_min := seat_extension_min s,
       block_next_focus_until_seat_extended := False\<rparr>"

definition switch_phase :: "datetime \<Rightarrow> phase \<Rightarrow> session_state \<Rightarrow> session_state" where
  "switch_phase now to_phase s =
     (let focus_min = focus (settings s);
          rest_min = rest (settings s);
          s1 = s\<lparr>phase := to_phase, phase_start_dt := Some now\<rparr>
      in case to_phase of
           FOCUS \<Rightarrow> s1\<lparr>phase_end_dt := Some (now + timedelta_minutes focus_min),
                       phase_start_dt := Some now\<rparr>
         | REST \<Rightarrow>
             (let s2 = s1\<lparr>phase_end_dt := Some (now + timedelta_minutes rest_min),
                          phase_start_dt := Some now, seat_alert_shown_in_rest := False\<rparr>
              in if use_seat (settings s2) \<and> \<not> is_seat_reset_window now then
                   (case compute_seat_left_seconds now (seat_start_dt (settings s2))
                           (seat_extension_min s2) of
                      None \<Rightarrow> s2
                    | Some seat_left_sec \<Rightarrow>
                        if seat_left_sec \<le> SEAT_ALERT_WINDOW_SEC then
                          request_extension_popup ''break_start'' seat_left_sec
                            (s2\<lparr>seat_alert_shown_in_rest := True\<rparr>)
                        else s2)
                 else s2)
         | IDLE \<Rightarrow> s1\<lparr>phase_end_dt := None\<rparr>)"

definition resume_timer :: "datetime \<Rightarrow> session_state \<Rightarrow> session_state" where
  "resume_timer now s =
     (let s1 = (case pause_started_at s of
                  None \<Rightarrow> s
                | Some p \<Rightarrow>
                    let paused_delta = now - p
                    in s\<lparr>phase_start_dt := map_option (\<lambda>ps. ps + paused_delta) (phase_start_dt s),
                         phase_end_dt := map_option (\<lambda>pe. pe + paused_delta) (phase_end_dt s)\<rparr>)
      in s1\<lparr>paused := False, pause_started_at := None,
            pause_snapshot_prog := None, pause_snapshot_rem_sec := None\<rparr>)"

section \<open>Dialogs\<close>

text \<open>
  A dialog function runs once per interaction and at most one of its buttons is pressed
  in a run, so a run is the function applied to the button pressed. \<open>st.rerun()\<close> stops
  the run where it is called: the statements after it are not executed, and the model
  returns the state reached there. \<open>st.success\<close> and \<open>time.sleep\<close> leave the state alone.
\<close>

datatype dialog_flag =
  ShowSeatSettings | ShowStartSetup | ShowExtensionDialog | ShowPauseDialog | ShowStopDialog

definition open_dialog :: "dialog_flag \<Rightarrow> session_state \<Rightarrow> session_state" where
  "open_dialog name s =
     (let s1 = clear_dialog_flags s
      in case name of
           ShowSeatSettings \<Rightarrow> s1\<lparr>show_seat_settings := True\<rparr>
         | ShowStartSetup \<Rightarrow> s1\<lparr>show_start_setup := True\<rparr>
         | ShowExtensionDialog \<Rightarrow> s1\<lparr>show_extension_dialog := True\<rparr>
         | ShowPauseDialog \<Rightarrow> s1\<lparr>show_pause_dialog := True\<rparr>
         | ShowStopDialog \<Rightarrow> s1\<lparr>show_stop_dialog := True\<rparr>)"

datatype timer_mode = Mode25 | Mode50 | ModeTest

datatype button = Primary | Close | NoButton

definition start_setup_dialog :: "datetime \<Rightarrow> timer_mode \<Rightarrow> button \<Rightarrow> session_state \<Rightarrow> session_state" where
  "start_setup_dialog now mode click s =
     (case click of
        Primary \<Rightarrow>
          (let (f, r) = (case mode of ModeTest \<Rightarrow> (2, 1) | Mode25 \<Rightarrow> (25, 5) | Mode50 \<Rightarrow> (50, 10));
               left_sec = (if use_seat (settings s) \<and> \<not> is_seat_reset_window now
                           then compute_seat_left_seconds now (seat_start_dt (settings s))
                                  (seat_extension_min s)
                           else None)
           in case left_sec of
                None \<Rightarrow> start_timer_session now f r (clear_dialog_flags s)
              | Some l \<Rightarrow>
                  if l \<le> SEAT_ALERT_WINDOW_SEC then
                    request_extension_popup ''prestart'' l
                      (s\<lparr>pending_start := True, pending_focus := f, pending_rest := r\<rparr>)
                  else start_timer_session now f r (clear_dialog_flags s))
      | Close \<Rightarrow> clear_dialog_flags s
      | NoButton \<Rightarrow> s)"

datatype extension_button = Extend1h | Extend2h | Extend3h | CloseExtension | NoExtensionButton

definition extension_minutes :: "extension_button \<Rightarrow> int option" where
  "extension_minutes click =
     (case click of Extend1h \<Rightarrow> Some 60 | Extend2h \<Rightarrow> Some 120 | Extend3h \<Rightarrow> Some 180
      | _ \<Rightarrow> None)"

definition is_expired :: "session_state \<Rightarrow> bool" where
  \<comment> \<open>\<open>seat_left_sec = st.session_state.get("extension_seat_left_sec") or 0\<close>;
      \<open>is_expired = (seat_left_sec <= 0)\<close>\<close>
  "is_expired s =
     (let seat_left_sec = (case extension_seat_left_sec s of None \<Rightarrow> 0 | Some v \<Rightarrow> v)
      in seat_left_sec \<le> 0)"

text \<open>
  The three extension buttons are drawn only when the stored remaining time is positive;
  when it is not, none of them can be pressed and such a press changes nothing.
\<close>

definition extension_dialog :: "datetime \<Rightarrow> extension_button \<Rightarrow> session_state \<Rightarrow> session_state" where
  "extension_dialog now click s =
     (case (if is_expired s then None else extension_minutes click) of
        Some m \<Rightarrow>
          (let s1 = s\<lparr>seat_extension_min := seat_extension_min s + m\<rparr>;
               s2 = (clear_dialog_flags s1)\<lparr>extension_seat_left_sec := None\<rparr>
           in if block_next_focus_until_seat_extended s2 then
                switch_phase now FOCUS (s2\<lparr>block_next_focus_until_seat_extended := False\<rparr>)
              else if pending_start s2 then
                start_timer_session now (pending_focus s2) (pending_rest s2)
                  (s2\<lparr>pending_start := False\<rparr>)
              else if pending_resume s2 then
                resume_timer now (s2\<lparr>pending_resume := False\<rparr>)
              else s2)
      | None \<Rightarrow>
          if click = CloseExtension then
            (let s1 = clear_dialog_flags s
             in if block_next_focus_until_seat_extended s1 \<or> is_expired s then
                  s1\<lparr>block_next_focus_until_seat_extended := False, running := False,
                     phase := IDLE\<rparr>
                else s1\<lparr>pending_start := False, pending_resume := False\<rparr>)
          else s)"

definition pause_snapshot :: "datetime \<Rightarrow> session_state \<Rightarrow> session_state" where
  \<comment> \<open>the snapshot part of the pause button\<close>
  "pause_snapshot now s =
     (case (phase_start_dt s, phase_end_dt s) of
        (Some phase_start, Some phase_end) \<Rightarrow>
          if phase s = FOCUS \<or> phase s = REST then
            (let total_sec = max 1 (phase_end - phase_start);
                 rem_sec = max 0 (phase_end - now);
                 elapsed = max 0 (now - phase_start);
                 prog = min 100 ((of_int elapsed / of_int total_sec) * 100)
             in s\<lparr>pause_snapshot_prog := Some prog, pause_snapshot_rem_sec := Some rem_sec\<rparr>)
          else s\<lparr>pause_snapshot_prog := Some 0, pause_snapshot_rem_sec := Some 0\<rparr>
      | _ \<Rightarrow> s\<lparr>pause_snapshot_prog := Some 0, pause_snapshot_rem_sec := Some 0\<rparr>)"

definition pause_dialog ::
  "datetime \<Rightarrow> string \<Rightarrow> button \<Rightarrow> session_state \<Rightarrow> database \<Rightarrow> session_state \<times> database" where
  "pause_dialog now why click s conn =
     (case click of
        Primary \<Rightarrow>
          (let cur_phase = phase s;
               conn1 = (if cur_phase = FOCUS \<and> phase_start_dt s \<noteq> None
                        then fst (log_focus_segment_if_any conn (phase_start_dt s) now)
                        else conn);
               conn2 = conn1\<lparr>interruptions := interruptions conn1 @
                         [\<lparr>timestamp = now, kind = PauseKind, reason = why,
                           duration_lost = 0, phase_at = cur_phase\<rparr>]\<rparr>;
               s1 = pause_snapshot now s;
               s2 = s1\<lparr>paused := True, pause_started_at := Some now\<rparr>
           in (clear_dialog_flags s2, conn2))
      | Close \<Rightarrow> (clear_dialog_flags s, conn)
      | NoButton \<Rightarrow> (s, conn))"

definition stop_dialog ::
  "datetime \<Rightarrow> string \<Rightarrow> button \<Rightarrow> session_state \<Rightarrow> database \<Rightarrow> session_state \<times> database" where
  "stop_dialog now why click s conn =
     (case click of
        Primary \<Rightarrow>
          (let cur_phase = phase s;
               conn1 = (if cur_phase = FOCUS \<and> phase_start_dt s \<noteq> None
                        then fst (log_focus_segment_if_any conn (phase_start_dt s) now)
                        else conn);
               conn2 = conn1\<lparr>interruptions := interruptions conn1 @
                         [\<lparr>timestamp = now, kind = StopKind, reason = why,
                           duration_lost = 0, phase_at = cur_phase\<rparr>]\<rparr>;
               s1 = s\<lparr>running := False, paused := False, pause_started_at := None,
                      pause_snapshot_prog := None, pause_snapshot_rem_sec := None,
                      phase := IDLE, phase_start_dt := None, phase_end_dt := None,
                      seat_alert_shown_in_rest := False,
                      block_next_focus_until_seat_extended := False\<rparr>
           in (clear_dialog_flags s1, conn2))
      | Close \<Rightarrow> (clear_dialog_flags s, conn)
      | NoButton \<Rightarrow> (s, conn))"

section \<open>The resume button of the main page\<close>

definition resume_button :: "datetime \<Rightarrow> session_state \<Rightarrow> session_state" where
  \<comment> \<open>drawn when \<open>running\<close> and \<open>paused\<close>; \<open>_open_dialog\<close> ends the run\<close>
  "resume_button now s =
     (let left_sec = (if use_seat (settings s) \<and> \<not> is_seat_reset_window now
                      then compute_seat_left_seconds now (seat_start_dt (settings s))
                             (seat_extension_min s)
                      else None)
      in case left_sec of
           None \<Rightarrow> resume_timer now s
         | Some l \<Rightarrow>
             if l \<le> SEAT_ALERT_WINDOW_SEC then
               open_dialog ShowExtensionDialog
                 (s\<lparr>pending_resume := True, seat_extension_context := ''resume'',
                    extension_seat_left_sec := Some l\<rparr>)
             else resume_timer now s)"

section \<open>The timer fragment, run every second\<close>

record fragment_run =
  state_after :: session_state
  conn_after :: database
  drawn :: "pie option"
  rerun :: bool

definition tick_blocked :: "datetime \<Rightarrow> session_state \<Rightarrow> database \<Rightarrow> fragment_run" where
  \<comment> \<open>part 1 of the fragment: the next focus is blocked until the seat is extended\<close>
  "tick_blocked now s conn =
     (let s1 = s\<lparr>phase := REST, phase_end_dt := Some now\<rparr>
      in if \<not> show_extension_dialog s1 then
           (let s2 = s1\<lparr>seat_extension_context := ''break''\<rparr>;
                s3 = (if use_seat (settings s2) then
                        (case compute_seat_left_seconds now (seat_start_dt (settings s2))
                                (seat_extension_min s2) of
                           None \<Rightarrow> s2
                         | Some seat_left_sec \<Rightarrow>
                             s2\<lparr>extension_seat_left_sec := Some (max 0 seat_left_sec)\<rparr>)
                      else s2)
            in \<lparr>state_after = s3\<lparr>show_extension_dialog := True\<rparr>, conn_after = conn,
                drawn = None, rerun = True\<rparr>)
         else \<lparr>state_after = s1, conn_after = conn,
               drawn = Some (get_filled_pie_html 100 ''#4CAF50'' (Clock 0 0) RestBlocked),
               rerun = False\<rparr>)"

definition tick_paused :: "session_state \<Rightarrow> database \<Rightarrow> fragment_run" where
  \<comment> \<open>part 2 of the fragment: the paused screen\<close>
  "tick_paused s conn =
     (let is_focus = (phase s = FOCUS);
          (color, status) = (if is_focus then (''#FF4B4B'', FocusPaused)
                             else (''#4CAF50'', RestPaused))
      in case (pause_snapshot_prog s, pause_snapshot_rem_sec s) of
           (Some snap_prog, Some snap_rem) \<Rightarrow>
             (let rem_sec = max 0 snap_rem
              in \<lparr>state_after = s, conn_after = conn,
                  drawn = Some (get_filled_pie_html snap_prog color (clock_text rem_sec) status),
                  rerun = False\<rparr>)
         | _ \<Rightarrow> \<lparr>state_after = s, conn_after = conn,
                 drawn = Some (get_filled_pie_html 0 ''#999'' PAUSE PausedNoSnapshot),
                 rerun = False\<rparr>)"

definition tick_expired ::
  "datetime \<Rightarrow> pie \<Rightarrow> session_state \<Rightarrow> database \<Rightarrow> fragment_run" where
  \<comment> \<open>part 4 of the fragment: \<open>now >= phase_end\<close>, the phase being FOCUS or REST\<close>
  "tick_expired now shown s conn =
     (if phase s = FOCUS then
        (let conn1 = (if phase_start_dt s \<noteq> None
                      then fst (log_focus_segment_if_any conn (phase_start_dt s) now)
                      else conn);
             s1 = switch_phase now REST s;
             s2 = s1\<lparr>block_next_focus_until_seat_extended := False\<rparr>
         in \<lparr>state_after = s2, conn_after = conn1, drawn = Some shown,
             rerun = show_extension_dialog s2\<rparr>)
      else
        (let seat_left_sec = (if use_seat (settings s) \<and> \<not> is_seat_reset_window now
                              then compute_seat_left_seconds now (seat_start_dt (settings s))
                                     (seat_extension_min s)
                              else None);
             go_on = \<lparr>state_after = switch_phase now FOCUS
                                      (s\<lparr>block_next_focus_until_seat_extended := False\<rparr>),
                      conn_after = conn, drawn = Some shown, rerun = False\<rparr>
         in case seat_left_sec of
              None \<Rightarrow> go_on
            | Some l \<Rightarrow>
                if l \<le> SEAT_ALERT_WINDOW_SEC then
                  \<lparr>state_after = s\<lparr>block_next_focus_until_seat_extended := True,
                                   seat_extension_context := ''break'',
                                   extension_seat_left_sec := Some l,
                                   show_extension_dialog := True,
                                   phase_end_dt := Some now\<rparr>,
                   conn_after = conn, drawn = Some shown, rerun = True\<rparr>
                else go_on))"

definition tick_rest_alert ::
  "datetime \<Rightarrow> pie \<Rightarrow> session_state \<Rightarrow> database \<Rightarrow> fragment_run" where
  \<comment> \<open>part 5 of the fragment: the one-time alert during a rest\<close>
  "tick_rest_alert now shown s conn =
     (let quiet = \<lparr>state_after = s, conn_after = conn, drawn = Some shown, rerun = False\<rparr>
      in if phase s \<noteq> FOCUS \<and> use_seat (settings s) \<and> \<not> is_seat_reset_window now then
           (case compute_seat_left_seconds now (seat_start_dt (settings s))
                   (seat_extension_min s) of
              None \<Rightarrow> quiet
            | Some l \<Rightarrow>
                if l \<le> SEAT_ALERT_WINDOW_SEC \<and> \<not> seat_alert_shown_in_rest s then
                  \<lparr>state_after = s\<lparr>seat_alert_shown_in_rest := True,
                                   seat_extension_context := ''break'',
                                   extension_seat_left_sec := Some l,
                                   show_extension_dialog := True\<rparr>,
                   conn_after = conn, drawn = Some shown, rerun = True\<rparr>
                else quiet)
         else quiet)"

definition run_timer_fragment :: "datetime \<Rightarrow> session_state \<Rightarrow> database \<Rightarrow> fragment_run" where
  "run_timer_fragment now s conn =
     (let idle = \<lparr>state_after = s, conn_after = conn,
                  drawn = Some (get_filled_pie_html 0 ''#ccc'' (Clock 0 0) Waiting),
                  rerun = False\<rparr>
      in if \<not> running s then idle
         else if block_next_focus_until_seat_extended s then tick_blocked now s conn
         else if paused s then tick_paused s conn
         else
           (case (phase_start_dt s, phase_end_dt s) of
              (Some phase_start, Some phase_end) \<Rightarrow>
                if phase s \<noteq> FOCUS \<and> phase s \<noteq> REST then idle
                else
                  (let total_sec = max 1 (phase_end - phase_start);
                       rem_sec = max 0 (phase_end - now);
                       elapsed = max 0 (now - phase_start);
                       prog = min 100 ((of_int elapsed / of_int total_sec) * 100);
                       is_focus = (phase s = FOCUS);
                       (color, status) = (if is_focus then (''#FF4B4B'', Focusing)
                                          else (''#4CAF50'', Resting));
                       shown = get_filled_pie_html prog color (clock_text rem_sec) status
                   in if now \<ge> phase_end then tick_expired now shown s conn
                      else tick_rest_alert now shown s conn)
            | _ \<Rightarrow> idle))"

fun ticks :: "datetime list \<Rightarrow> session_state \<Rightarrow> database \<Rightarrow> session_state \<times> database" where
  \<comment> \<open>the fragment run at successive times\<close>
  "ticks [] s conn = (s, conn)"
| "ticks (now # later) s conn =
     (let r = run_timer_fragment now s conn in ticks later (state_after r) (conn_after r))"

definition total_focus_minutes :: "database \<Rightarrow> int" where
  \<comment> \<open>\<open>focus_minutes\<close> summed over the stored sessions, as the report does\<close>
  "total_focus_minutes conn = sum_list (map focus_minutes (study_sessions conn))"

section \<open>Seat policy: expiry and remaining time\<close>

text \<open>
  C2. The expiry of a seat never lies after 23:00 of the calendar day of its start,
  whatever the extension; a seat started at 21:30 of any day with no extension expires
  at 23:00 of that day, which is 90 minutes after the start and not the 180 minutes of
  the base allotment.
\<close>

theorem seat_expiry_le_closing:
  "get_seat_expiry_dt seat_start ext \<le> seat_close_dt_for seat_start
   \<and> seat_close_dt_for seat_start = date_of seat_start * 86400 + dtime 23 0
   \<and> get_seat_expiry_dt (d * 86400 + dtime 21 30) 0 = d * 86400 + dtime 23 0
   \<and> get_seat_expiry_dt (d * 86400 + dtime 21 30) 0 = (d * 86400 + dtime 21 30) + timedelta_minutes 90
   \<and> get_seat_expiry_dt (d * 86400 + dtime 21 30) 0 \<noteq> (d * 86400 + dtime 21 30) + timedelta_minutes 180"
  by (simp add: get_seat_expiry_dt_def seat_close_dt_for_def dt_at_def date_of_def dtime_def
      timedelta_minutes_def SEAT_CLOSE_HOUR_def SEAT_BASE_MIN_def)

theorem seat_expiry_le_closing_witness:
  "get_seat_expiry_dt (5 * 86400 + dtime 21 30) 0 = 5 * 86400 + dtime 23 0
   \<and> get_seat_expiry_dt (dtime 9 0) 600 \<le> seat_close_dt_for (dtime 9 0)"
  using seat_expiry_le_closing [of "dtime 9 0" 600 5] by simp

text \<open>
  C4. The remaining seat time is undefined exactly when the seat start is unset, or
  the current clock time is in the reset window (at or after 23:00, or before 06:00), or
  the current time is before the seat start. In every other case it is the expiry minus
  the current time; that value can be negative (seat started at 08:00, read at 12:00).
\<close>

theorem seat_left_none_iff:
  "(compute_seat_left_seconds now seat ext = None) =
     (seat = None
      \<or> (time_of now \<ge> dtime 23 0 \<or> time_of now < dtime 6 0)
      \<or> (\<exists>s. seat = Some s \<and> now < s))
   \<and> (\<forall>s. seat = Some s \<and> dtime 6 0 \<le> time_of now \<and> time_of now < dtime 23 0 \<and> s \<le> now
        \<longrightarrow> compute_seat_left_seconds now seat ext = Some (get_seat_expiry_dt s ext - now))
   \<and> compute_seat_left_seconds (dtime 12 0) (Some (dtime 8 0)) 0 = Some (- 3600)"
proof -
  have neg: "compute_seat_left_seconds (dtime 12 0) (Some (dtime 8 0)) 0 = Some (- 3600)"
    by (simp add: compute_seat_left_seconds_def is_seat_reset_window_def time_of_def dtime_def
        get_seat_expiry_dt_def seat_close_dt_for_def dt_at_def date_of_def timedelta_minutes_def
        SEAT_CLOSE_HOUR_def SEAT_OPEN_HOUR_def SEAT_BASE_MIN_def)
  have iff: "(compute_seat_left_seconds now seat ext = None) =
     (seat = None
      \<or> (time_of now \<ge> dtime 23 0 \<or> time_of now < dtime 6 0)
      \<or> (\<exists>s. seat = Some s \<and> now < s))"
    by (cases seat)
       (auto simp: compute_seat_left_seconds_def is_seat_reset_window_def
          SEAT_CLOSE_HOUR_def SEAT_OPEN_HOUR_def)
  have val: "\<forall>s. seat = Some s \<and> dtime 6 0 \<le> time_of now \<and> time_of now < dtime 23 0 \<and> s \<le> now
        \<longrightarrow> compute_seat_left_seconds now seat ext = Some (get_seat_expiry_dt s ext - now)"
    by (auto simp: compute_seat_left_seconds_def is_seat_reset_window_def
          SEAT_CLOSE_HOUR_def SEAT_OPEN_HOUR_def)
  from iff val neg show ?thesis by blast
qed

theorem seat_left_none_iff_witness:
  "compute_seat_left_seconds (dtime 22 5) (Some (dtime 20 30)) 0 = Some (55 * 60)
   \<and> compute_seat_left_seconds (dtime 23 0) (Some (dtime 19 0)) 0 = None
   \<and> compute_seat_left_seconds (dtime 5 59) (Some (dtime 1 0)) 0 = None
   \<and> compute_seat_left_seconds (dtime 10 0) (Some (dtime 11 0)) 0 = None
   \<and> compute_seat_left_seconds (dtime 10 0) None 0 = None"
proof -
  have a: "compute_seat_left_seconds (dtime 22 5) (Some (dtime 20 30)) 0
           = Some (get_seat_expiry_dt (dtime 20 30) 0 - dtime 22 5)"
    using seat_left_none_iff [of "dtime 22 5" "Some (dtime 20 30)" 0]
    by (simp add: time_of_def dtime_def)
  have b: "compute_seat_left_seconds (dtime 23 0) (Some (dtime 19 0)) 0 = None"
    using seat_left_none_iff [of "dtime 23 0" "Some (dtime 19 0)" 0]
    by (simp add: time_of_def dtime_def)
  have c: "compute_seat_left_seconds (dtime 5 59) (Some (dtime 1 0)) 0 = None"
    using seat_left_none_iff [of "dtime 5 59" "Some (dtime 1 0)" 0]
    by (simp add: time_of_def dtime_def)
  have d: "compute_seat_left_seconds (dtime 10 0) (Some (dtime 11 0)) 0 = None"
    using seat_left_none_iff [of "dtime 10 0" "Some (dtime 11 0)" 0]
    by (simp add: time_of_def dtime_def)
  have e: "compute_seat_left_seconds (dtime 10 0) None 0 = None"
    using seat_left_none_iff [of "dtime 10 0" None 0] by simp
  have f: "get_seat_expiry_dt (dtime 20 30) 0 - dtime 22 5 = 55 * 60"
    by (simp add: get_seat_expiry_dt_def seat_close_dt_for_def dt_at_def date_of_def dtime_def
        timedelta_minutes_def SEAT_CLOSE_HOUR_def SEAT_BASE_MIN_def)
  from a b c d e f show ?thesis by simp
qed

end
